theory Spec2Isabelle
  imports Main "HOL-Library.Word"
begin

section \<open>Values, exceptions and the observable trace\<close>

text \<open>
  The program of \<^verbatim>\<open>monitor_intake_forms.py\<close> polls a MongoDB collection and mails every
  new form. Documents are Python dictionaries of BSON values; the values the program can
  meet are modelled by \<open>pyval\<close>. A dictionary is an association list read with
  \<open>map_of\<close>, so that \<open>items()\<close> keeps its order.
\<close>

type_synonym bytes = "8 word list"

datatype pyval =
    PNone
  | PBool bool
  | PInt int
  | PStr string
  | PBytes bytes
  | PObjectId nat
  | PDatetime int
  | PDict "(string \<times> pyval) list"

type_synonym pydict = "(string \<times> pyval) list"

text \<open>The exception classes that matter: \<open>SMTPException\<close> has a handler of its own in
  \<open>send_email\<close>, every other one is caught as \<open>Exception\<close>.\<close>

datatype exn =
    KeyError string
  | AttributeError
  | TypeError
  | ValueError
  | SMTPException
  | OSError
  | PyMongoError

text \<open>Truth value testing of Python, as used by \<open>if x:\<close> and \<open>x and y\<close>.\<close>

fun truthy :: "pyval \<Rightarrow> bool" where
  "truthy PNone = False"
| "truthy (PBool b) = b"
| "truthy (PInt i) = (i \<noteq> 0)"
| "truthy (PStr s) = (s \<noteq> [])"
| "truthy (PBytes b) = (b \<noteq> [])"
| "truthy (PObjectId n) = True"
| "truthy (PDatetime t) = True"
| "truthy (PDict d) = (d \<noteq> [])"

text \<open>\<open>len(x)\<close>: defined on strings, bytes and dictionaries, a \<open>TypeError\<close> elsewhere.\<close>

fun py_len :: "pyval \<Rightarrow> exn + nat" where
  "py_len (PStr s) = Inr (length s)"
| "py_len (PBytes b) = Inr (length b)"
| "py_len (PDict d) = Inr (length d)"
| "py_len v = Inl TypeError"

text \<open>\<open>d.get(key, default)\<close> on a dictionary.\<close>

definition dict_get :: "pydict \<Rightarrow> string \<Rightarrow> pyval \<Rightarrow> pyval" where
  "dict_get d key dflt = (case map_of d key of None \<Rightarrow> dflt | Some v \<Rightarrow> v)"

text \<open>\<open>x.get(key)\<close> on an arbitrary value: only a dictionary has the method.\<close>

fun method_get :: "pyval \<Rightarrow> string \<Rightarrow> exn + pyval" where
  "method_get (PDict d) key = Inr (dict_get d key PNone)"
| "method_get v key = Inl AttributeError"

text \<open>\<open>d[key]\<close>.\<close>

definition subscript :: "pydict \<Rightarrow> string \<Rightarrow> exn + pyval" where
  "subscript d key = (case map_of d key of None \<Rightarrow> Inl (KeyError key) | Some v \<Rightarrow> Inr v)"

text \<open>\<open>sep.join(parts)\<close>.\<close>

fun join :: "string \<Rightarrow> string list \<Rightarrow> string" where
  "join sep [] = []"
| "join sep [x] = x"
| "join sep (x # y # ys) = x @ sep @ join sep (y # ys)"

text \<open>\<open>a, b = s.split(c, 1)\<close>: the text before and after the first \<open>c\<close>; without a
  \<open>c\<close> the unpacking raises \<open>ValueError\<close>, which is \<open>None\<close> here.\<close>

fun split_once :: "char \<Rightarrow> string \<Rightarrow> (string \<times> string) option" where
  "split_once c [] = None"
| "split_once c (x # xs) =
     (if x = c then Some ([], xs)
      else (case split_once c xs of None \<Rightarrow> None | Some (a, b) \<Rightarrow> Some (x # a, b)))"

record attachment =
  main_type :: string
  sub_type :: string
  payload :: string
  content_disposition :: string

record message =
  msg_from :: string
  msg_to :: string
  msg_subject :: string
  msg_body :: string
  msg_attachments :: "attachment list"

datatype query = Find_all | Find_id_gt pyval

text \<open>What the process does to the outside, in order: log lines, database queries, mail
  sessions, sleeps and thread starts.\<close>

datatype event =
    Log_info string
  | Log_warning string
  | Log_exception string exn
  | Db_find query
  | Smtp_session message
  | Sleep int
  | Thread_start pydict pyval pyval

fun is_smtp_session :: "event \<Rightarrow> bool" where
  "is_smtp_session (Smtp_session msg) = True"
| "is_smtp_session ev = False"

text \<open>
  The configuration read from the environment, and the collaborators the program calls
  without defining them. A collaborator that talks to the outside answers as a function
  of everything that happened before (the trace), so successive calls may differ.
  \<^item> \<open>py_str\<close> is \<open>str(x)\<close>, also inside f-strings;
  \<^item> \<open>guess_type\<close> is the first component of \<open>mimetypes.guess_type\<close>;
  \<^item> \<open>encode_base64\<close> is \<open>set_payload\<close> followed by \<open>encoders.encode_base64\<close>;
  \<^item> \<open>smtp_session\<close> is the whole \<open>with smtplib.SMTP(...)\<close> block up to
    \<open>send_message\<close>: \<open>None\<close> when the message was handed over;
  \<^item> \<open>collection_find\<close> is the cursor of \<open>collection.find(query).sort("_id", 1)\<close>: the
    documents it yields and the error it ends with, if any.
\<close>

record env =
  EMAIL_ADDRESS :: string
  RECIPIENT_EMAILS :: "string list"
  POLLING_INTERVAL :: int
  py_str :: "pyval \<Rightarrow> string"
  guess_type :: "pyval \<Rightarrow> exn + string option"
  encode_base64 :: "pyval \<Rightarrow> exn + string"
  smtp_session :: "event list \<Rightarrow> message \<Rightarrow> exn option"
  collection_find :: "event list \<Rightarrow> query \<Rightarrow> pydict list \<times> exn option"

definition ALLOWED_MIME_TYPES :: "string list" where
  "ALLOWED_MIME_TYPES = [''application/pdf'', ''image/jpeg'', ''image/png'', ''image/gif'']"

definition MAX_FILE_SIZE :: nat where
  "MAX_FILE_SIZE = 5 * 1024 * 1024"

section \<open>The functions of the program\<close>

text \<open>How a block of statements ends: it falls through with a value, it executes
  \<open>return\<close>, or it raises.

  \<open>handle_exception\<close> logs and then re-raises the exception being handled (a bare
  \<open>raise\<close> inside the caller's \<open>except\<close> clause).\<close>

datatype 'a flow = Next 'a | Return | Raise exn

definition handle_exception :: "event list \<Rightarrow> string \<Rightarrow> exn \<Rightarrow> event list \<times> unit flow" where
  "handle_exception tr context error = (tr @ [Log_exception context error], Raise error)"

text \<open>The attachment block of \<open>send_email\<close> (\<open>if file_data and file_name: ...\<close>).\<close>

definition attach_file ::
  "env \<Rightarrow> event list \<Rightarrow> message \<Rightarrow> pyval \<Rightarrow> pyval \<Rightarrow> event list \<times> message flow" where
  "attach_file env tr msg file_data file_name =
     (if truthy file_data \<and> truthy file_name then
        (case py_len file_data of
           Inl e \<Rightarrow> (tr, Raise e)
         | Inr n \<Rightarrow>
             if n > MAX_FILE_SIZE then
               (tr @ [Log_warning (''File '' @ py_str env file_name
                        @ '' exceeds the size limit. Email not sent'')], Next msg)
             else
               (case guess_type env file_name of
                  Inl e \<Rightarrow> (tr, Raise e)
                | Inr mime_type \<Rightarrow>
                    (case split_once (CHR ''/'')
                            (case mime_type of
                               None \<Rightarrow> ''application/octet-stream''
                             | Some m \<Rightarrow> if m = [] then ''application/octet-stream'' else m) of
                       None \<Rightarrow> (tr, Raise ValueError)
                     | Some (main, sub) \<Rightarrow>
                         if (case mime_type of
                               None \<Rightarrow> True
                             | Some m \<Rightarrow> m \<notin> set ALLOWED_MIME_TYPES) then
                           (tr @ [Log_warning (''Unsupported file type: ''
                                    @ (case mime_type of None \<Rightarrow> ''None'' | Some m \<Rightarrow> m))],
                            Return)
                         else
                           (case encode_base64 env file_data of
                              Inl e \<Rightarrow> (tr, Raise e)
                            | Inr enc \<Rightarrow>
                                (tr, Next (msg\<lparr>msg_attachments := msg_attachments msg @
                                   [\<lparr>main_type = main, sub_type = sub, payload = enc,
                                     content_disposition =
                                       ''attachment; filename='' @ [CHR 0x22]
                                       @ py_str env file_name @ [CHR 0x22]\<rparr>]\<rparr>))))))
      else (tr, Next msg))"

text \<open>The two \<open>except\<close> clauses of \<open>send_email\<close>; both end in \<open>handle_exception\<close>.\<close>

definition send_email_except :: "event list \<Rightarrow> exn \<Rightarrow> event list \<times> exn option" where
  "send_email_except tr e =
     (case handle_exception tr
             (if e = SMTPException then ''SMTP error occurred'' else ''Error sending email'') e of
        (tr', Raise e') \<Rightarrow> (tr', Some e')
      | (tr', _) \<Rightarrow> (tr', None))"

definition message_body :: "env \<Rightarrow> pydict \<Rightarrow> string" where
  "message_body env text_data =
     join [CHR 0x0A]
       (map (\<lambda>(key, v). key @ '': '' @ py_str env v)
          (filter (\<lambda>(key, v). key \<noteq> ''uploadedFile'') text_data))"

text \<open>The message as \<open>send_email\<close> builds it before it looks at the file: sender,
  recipients, subject and the plain-text body.\<close>

definition new_message :: "env \<Rightarrow> pydict \<Rightarrow> message" where
  "new_message env text_data =
     \<lparr>msg_from = EMAIL_ADDRESS env,
      msg_to = join '', '' (RECIPIENT_EMAILS env),
      msg_subject = ''New Customer Submission'',
      msg_body = message_body env text_data,
      msg_attachments = []\<rparr>"

text \<open>The \<open>with smtplib.SMTP(...)\<close> block of \<open>send_email\<close> under its \<open>except\<close>
  clauses: one mail session for the message.\<close>

definition deliver :: "env \<Rightarrow> event list \<Rightarrow> message \<Rightarrow> event list \<times> exn option" where
  "deliver env tr msg =
     (case smtp_session env tr msg of
        Some e \<Rightarrow> send_email_except (tr @ [Smtp_session msg]) e
      | None \<Rightarrow> (tr @ [Smtp_session msg, Log_info ''Email sent to''], None))"

text \<open>\<open>send_email\<close>: the trace after the call, and the exception that leaves it
  (\<open>None\<close> when it returns).\<close>

definition send_email ::
  "env \<Rightarrow> event list \<Rightarrow> pydict \<Rightarrow> pyval \<Rightarrow> pyval \<Rightarrow> event list \<times> exn option" where
  "send_email env tr text_data file_data file_name =
     (case attach_file env tr (new_message env text_data) file_data file_name of
        (tr1, Raise e) \<Rightarrow> send_email_except tr1 e
      | (tr1, Return) \<Rightarrow> (tr1, None)
      | (tr1, Next msg) \<Rightarrow> deliver env tr1 msg)"

text \<open>\<open>sent_email_async\<close> starts a thread that will run \<open>send_email\<close> and returns at
  once: the caller's trace gets the thread start only.\<close>

definition sent_email_async ::
  "env \<Rightarrow> event list \<Rightarrow> pydict \<Rightarrow> pyval \<Rightarrow> pyval \<Rightarrow> event list \<times> exn option" where
  "sent_email_async env tr text_data file_data file_name =
     (tr @ [Thread_start text_data file_data file_name], None)"

definition fetch_new_forms :: "env \<Rightarrow> event list \<Rightarrow> pyval \<Rightarrow> query \<times> pydict list \<times> exn option" where
  "fetch_new_forms env tr last_check_id =
     (let query = (if truthy last_check_id then Find_id_gt last_check_id else Find_all)
      in (query, collection_find env tr query))"

definition customer_data_keys :: "string list" where
  "customer_data_keys =
     [''name'', ''email'', ''phone'', ''communicationMethod'', ''contactTime'',
      ''projectType'', ''projectDescription'', ''uploadedFile'', ''createdAt'']"

text \<open>The dictionary comprehension of \<open>process_form\<close>.\<close>

definition customer_info_of :: "pydict \<Rightarrow> pydict" where
  "customer_info_of form =
     map (\<lambda>key. (key, dict_get form key (PStr ''N/A''))) customer_data_keys"

text \<open>\<open>process_form\<close>: the log lines it writes, and either the exception it raises or
  the triple \<open>(customer_info, file_attachment, file_name)\<close>, with \<open>PNone\<close> for
  \<open>None\<close>.\<close>

definition process_form ::
  "env \<Rightarrow> pydict \<Rightarrow> event list \<times> (exn + pydict \<times> pyval \<times> pyval)" where
  "process_form env form =
     (let customer_info = customer_info_of form
      in case map_of form ''uploadedFile'' of
           None \<Rightarrow> ([], Inr (customer_info, PNone, PNone))
         | Some uploaded_file \<Rightarrow>
             if truthy uploaded_file then
               (case method_get uploaded_file ''data'' of
                  Inl e \<Rightarrow> ([], Inl e)
                | Inr file_data \<Rightarrow>
                    (case method_get uploaded_file ''filename'' of
                       Inl e \<Rightarrow> ([], Inl e)
                     | Inr file_name \<Rightarrow>
                         if truthy file_data \<and> truthy file_name then
                           ([], Inr (customer_info, file_data, file_name))
                         else
                           ([Log_warning (''Invalid or unsupported file: '' @ py_str env file_name)],
                            Inr (customer_info, PNone, file_name))))
             else ([Log_info ''No file uploaded''], Inr (customer_info, PNone, PNone)))"

text \<open>The variables of \<open>monitor_new_submission\<close>, with the trace of the process.\<close>

record monitor_state =
  seen_ids :: "string set"
  last_checked_id :: pyval
  trace :: "event list"

text \<open>The log line of the loop for a record it has not seen.\<close>

definition processing_line :: "string \<Rightarrow> string \<Rightarrow> event" where
  "processing_line form_name form_id =
     Log_info (''Processing new submission name: '' @ form_name @ '' with ID: '' @ form_id @ '' '')"

text \<open>The body of \<open>for form in new_forms\<close>: the state after it, and the exception that
  leaves it (\<open>None\<close> when the body ends or executes \<open>continue\<close>).\<close>

definition loop_body :: "env \<Rightarrow> monitor_state \<Rightarrow> pydict \<Rightarrow> monitor_state \<times> exn option" where
  "loop_body env st form =
     (case subscript form ''name'' of
        Inl e \<Rightarrow> (st, Some e)
      | Inr name \<Rightarrow>
          (case subscript form ''_id'' of
             Inl e \<Rightarrow> (st, Some e)
           | Inr oid \<Rightarrow>
               (let form_name = py_str env name;
                    form_id = py_str env oid;
                    st1 = st\<lparr>last_checked_id := oid\<rparr>
                in if form_id \<in> seen_ids st1 then (st1, None)
                   else
                     (let st2 = st1\<lparr>seen_ids := insert form_id (seen_ids st1),
                                    trace := trace st1 @ [processing_line form_name form_id]\<rparr>
                      in case process_form env form of
                           (logs, Inl e) \<Rightarrow> (st2\<lparr>trace := trace st2 @ logs\<rparr>, Some e)
                         | (logs, Inr (customer_info, file_attachment, file_name)) \<Rightarrow>
                             (case send_email env (trace st2 @ logs)
                                     customer_info file_attachment file_name of
                                (tr, r) \<Rightarrow> (st2\<lparr>trace := tr\<rparr>, r))))))"

text \<open>The \<open>for\<close> loop: an exception in one body ends it.\<close>

fun for_forms :: "env \<Rightarrow> monitor_state \<Rightarrow> pydict list \<Rightarrow> monitor_state \<times> exn option" where
  "for_forms env st [] = (st, None)"
| "for_forms env st (form # forms) =
     (case loop_body env st form of
        (st', Some e) \<Rightarrow> (st', Some e)
      | (st', None) \<Rightarrow> for_forms env st' forms)"

text \<open>\<open>time.sleep(secs)\<close> raises \<open>ValueError\<close> on a negative length.\<close>

definition py_sleep :: "monitor_state \<Rightarrow> int \<Rightarrow> monitor_state \<times> exn option" where
  "py_sleep st secs =
     (if secs < 0 then (st, Some ValueError)
      else (st\<lparr>trace := trace st @ [Sleep secs]\<rparr>, None))"

text \<open>The \<open>try\<close> block of one pass of \<open>while True\<close>.\<close>

definition poll_try :: "env \<Rightarrow> monitor_state \<Rightarrow> monitor_state \<times> exn option" where
  "poll_try env st =
     (case fetch_new_forms env (trace st) (last_checked_id st) of
        (query, new_forms, cursor_error) \<Rightarrow>
          (case for_forms env (st\<lparr>trace := trace st @ [Db_find query]\<rparr>) new_forms of
             (st1, Some e) \<Rightarrow> (st1, Some e)
           | (st1, None) \<Rightarrow>
               (case cursor_error of
                  Some e \<Rightarrow> (st1, Some e)
                | None \<Rightarrow> py_sleep st1 (POLLING_INTERVAL env))))"

text \<open>One pass of \<open>while True\<close>, with its \<open>except Exception\<close> clause: the clause
  calls \<open>handle_exception\<close> and then \<open>time.sleep(30)\<close>; an exception raised inside the
  clause leaves the loop.\<close>

definition poll_cycle :: "env \<Rightarrow> monitor_state \<Rightarrow> monitor_state \<times> exn option" where
  "poll_cycle env st =
     (case poll_try env st of
        (st1, None) \<Rightarrow> (st1, None)
      | (st1, Some e) \<Rightarrow>
          (case handle_exception (trace st1) ''Error monitoring submission:'' e of
             (tr, Raise e') \<Rightarrow> (st1\<lparr>trace := tr\<rparr>, Some e')
           | (tr, _) \<Rightarrow> py_sleep (st1\<lparr>trace := tr\<rparr>) 30))"

text \<open>\<open>while True\<close>, observed for a number of passes: \<open>Some e\<close> when an exception left
  the loop (and with it the function and the process), \<open>None\<close> when the loop is still
  running after that many passes. The loop has no other exit.\<close>

fun while_true :: "env \<Rightarrow> nat \<Rightarrow> monitor_state \<Rightarrow> monitor_state \<times> exn option" where
  "while_true env 0 st = (st, None)"
| "while_true env (Suc n) st =
     (case poll_cycle env st of
        (st', Some e) \<Rightarrow> (st', Some e)
      | (st', None) \<Rightarrow> while_true env n st')"

definition monitor_new_submission :: "env \<Rightarrow> nat \<Rightarrow> monitor_state \<times> exn option" where
  "monitor_new_submission env passes =
     while_true env passes
       \<lparr>seen_ids = {}, last_checked_id = PNone,
        trace = [Log_info ''Monitoring MongoDB for new form submissions...'']\<rparr>"

section \<open>A concrete environment\<close>

text \<open>Stand-ins for the collaborators, used to run the functions on concrete inputs:
  \<open>str\<close> of the values that occur, the suffix table of \<open>mimetypes\<close> for three
  extensions, a transport that accepts every message and an empty collection.\<close>

fun show_nat :: "nat \<Rightarrow> string" where
  "show_nat n =
     (if n < 10 then [''0123456789'' ! n]
      else show_nat (n div 10) @ [''0123456789'' ! (n mod 10)])"

definition ends_with :: "string \<Rightarrow> string \<Rightarrow> bool" where
  "ends_with s suf = (length suf \<le> length s \<and> drop (length s - length suf) s = suf)"

definition example_str :: "pyval \<Rightarrow> string" where
  "example_str v =
     (case v of
        PNone \<Rightarrow> ''None''
      | PStr s \<Rightarrow> s
      | PInt i \<Rightarrow> (if i < 0 then ''-'' @ show_nat (nat (- i)) else show_nat (nat i))
      | PObjectId n \<Rightarrow> show_nat n
      | _ \<Rightarrow> ''<object>'')"

definition example_guess_type :: "pyval \<Rightarrow> exn + string option" where
  "example_guess_type v =
     (case v of
        PStr s \<Rightarrow>
          Inr (if ends_with s ''.pdf'' then Some ''application/pdf''
               else if ends_with s ''.png'' then Some ''image/png''
               else if ends_with s ''.exe'' then Some ''application/octet-stream''
               else None)
      | _ \<Rightarrow> Inl TypeError)"

definition example_encode :: "pyval \<Rightarrow> exn + string" where
  "example_encode v =
     (case v of PBytes b \<Rightarrow> Inr ''<base64>'' | PStr s \<Rightarrow> Inr ''<base64>'' | _ \<Rightarrow> Inl TypeError)"

definition example_env :: env where
  "example_env =
     \<lparr>EMAIL_ADDRESS = ''forms@example.com'',
      RECIPIENT_EMAILS = [''sales@example.com'', ''owner@example.com''],
      POLLING_INTERVAL = 30,
      py_str = example_str,
      guess_type = example_guess_type,
      encode_base64 = example_encode,
      smtp_session = (\<lambda>tr msg. None),
      collection_find = (\<lambda>tr q. ([], None))\<rparr>"

text \<open>Three records with identifiers 1, 2, 3, as a first poll (no mark yet) finds them.\<close>

definition example_form :: "int \<Rightarrow> string \<Rightarrow> pydict" where
  "example_form i who =
     [(''_id'', PInt i), (''name'', PStr who), (''email'', PStr (who @ ''@example.com''))]"

definition three_forms :: "pydict list" where
  "three_forms = [example_form 1 ''ann'', example_form 2 ''bob'', example_form 3 ''cyd'']"

text \<open>The collection holds the three records and the mail server refuses the second
  session it is asked for.\<close>

definition second_send_fails_env :: env where
  "second_send_fails_env =
     example_env
       \<lparr>smtp_session :=
          (\<lambda>tr msg. if length (filter is_smtp_session tr) = 1 then Some SMTPException else None),
        collection_find := (\<lambda>tr q. (if q = Find_all then three_forms else [], None))\<rparr>"

text \<open>The collection holds the first two records and the mail server accepts every
  message.\<close>

definition two_forms_env :: env where
  "two_forms_env =
     example_env
       \<lparr>collection_find :=
          (\<lambda>tr q. (if q = Find_all then [example_form 1 ''ann'', example_form 2 ''bob''] else [],
                    None))\<rparr>"

text \<open>The database cannot be reached: the cursor fails before it yields a record.\<close>

definition database_down_env :: env where
  "database_down_env = example_env\<lparr>collection_find := (\<lambda>tr q. ([], Some PyMongoError))\<rparr>"

section \<open>The form transformer\<close>

lemma map_of_keyed:
  "map_of (map (\<lambda>key. (key, f key)) keys) k = (if k \<in> set keys then Some (f k) else None)"
  by (induction keys) auto

text \<open>
  C8. For every record, when \<open>process_form\<close> returns, its mapping holds exactly the
  declared field names, each with the record's value when the record has the field and
  with the placeholder \<open>"N/A"\<close> when it has not. The function fails on no missing
  data: its only failure is the \<open>AttributeError\<close> of a file entry that is present,
  true and not a dictionary.
\<close>

theorem process_form_fields:
  "case snd (process_form env form) of
     Inr (customer_info, file_attachment, file_name) \<Rightarrow>
       map fst customer_info = customer_data_keys \<and>
       (\<forall>key \<in> set customer_data_keys.
          map_of customer_info key =
            Some (case map_of form key of None \<Rightarrow> PStr ''N/A'' | Some v \<Rightarrow> v))
   | Inl e \<Rightarrow>
       e = AttributeError \<and>
       (\<exists>v. map_of form ''uploadedFile'' = Some v \<and> truthy v \<and> (\<forall>d. v \<noteq> PDict d))"
proof -
  let ?info = "customer_info_of form"
  have keys: "map fst ?info = customer_data_keys"
    by (simp add: customer_info_of_def comp_def)
  have vals: "\<forall>key \<in> set customer_data_keys.
      map_of ?info key = Some (case map_of form key of None \<Rightarrow> PStr ''N/A'' | Some v \<Rightarrow> v)"
    by (simp add: customer_info_of_def map_of_keyed dict_get_def)
  show ?thesis
  proof (cases "map_of form ''uploadedFile''")
    case None
    then show ?thesis using keys vals by (simp add: process_form_def Let_def)
  next
    case (Some v)
    show ?thesis
    proof (cases "truthy v")
      case False
      then show ?thesis using Some keys vals by (simp add: process_form_def Let_def)
    next
      case True
      show ?thesis
      proof (cases "\<exists>d. v = PDict d")
        case True
        then obtain d where "v = PDict d" by blast
        then show ?thesis using Some \<open>truthy v\<close> keys vals
          by (simp add: process_form_def Let_def)
      next
        case False
        then have "method_get v ''data'' = Inl AttributeError"
          by (cases v) simp_all
        then show ?thesis using Some \<open>truthy v\<close> False
          by (simp add: process_form_def Let_def)
      qed
    qed
  qed
qed

theorem process_form_fields_witness:
  "''email'' \<in> set customer_data_keys \<and>
   (\<exists>info. snd (process_form example_env [(''name'', PStr ''Ann''), (''_id'', PInt 1)])
             = Inr (info, PNone, PNone)
      \<and> map_of info ''name'' = Some (PStr ''Ann'')
      \<and> map_of info ''email'' = Some (PStr ''N/A''))"
  using process_form_fields
    [where env = example_env and form = "[(''name'', PStr ''Ann''), (''_id'', PInt 1)]"]
  by (simp add: process_form_def customer_info_of_def customer_data_keys_def dict_get_def)

lemma method_get_cases:
  "method_get v key = (case v of PDict d \<Rightarrow> Inr (dict_get d key PNone) | _ \<Rightarrow> Inl AttributeError)"
  by (cases v) simp_all

lemma process_form_never_KeyError:
  "snd (process_form env form) = Inl e \<Longrightarrow> e = AttributeError"
  by (cases "map_of form ''uploadedFile''")
     (auto simp add: process_form_def Let_def method_get_cases split: if_splits pyval.splits)

lemma process_form_name_placeholder:
  "map_of form ''name'' = None \<Longrightarrow> snd (process_form env form) = Inr (info, fa, fn)
   \<Longrightarrow> map_of info ''name'' = Some (PStr ''N/A'')"
  by (cases "map_of form ''uploadedFile''")
     (auto simp add: process_form_def Let_def method_get_cases customer_info_of_def
           customer_data_keys_def dict_get_def
           split: if_splits pyval.splits)

text \<open>
  C7, as the code has it. A file entry that is a non-empty dictionary whose payload or
  filename is missing or empty makes \<open>process_form\<close> log one warning and return no
  attachment bytes, but the name it returns is the entry's filename (absent only when
  the filename is missing). An entry that is present and false (\<open>None\<close>, an empty
  dictionary) gives an info line and no attachment; a record without the entry gives no
  attachment and no log line. None of the three fails.
\<close>

theorem process_form_file_entry:
  "(map_of form ''uploadedFile'' = Some (PDict d) \<and> d \<noteq> [] \<and>
      \<not> (truthy (dict_get d ''data'' PNone) \<and> truthy (dict_get d ''filename'' PNone))
    \<longrightarrow> process_form env form =
          ([Log_warning (''Invalid or unsupported file: ''
              @ py_str env (dict_get d ''filename'' PNone))],
           Inr (customer_info_of form, PNone, dict_get d ''filename'' PNone))) \<and>
   (map_of form ''uploadedFile'' = Some v \<and> \<not> truthy v
    \<longrightarrow> process_form env form =
          ([Log_info ''No file uploaded''], Inr (customer_info_of form, PNone, PNone))) \<and>
   (map_of form ''uploadedFile'' = None
    \<longrightarrow> process_form env form = ([], Inr (customer_info_of form, PNone, PNone)))"
  by (auto simp add: process_form_def Let_def)

theorem process_form_file_entry_witness:
  "process_form example_env [(''uploadedFile'', PDict [(''filename'', PStr ''plan.pdf'')])] =
     ([Log_warning ''Invalid or unsupported file: plan.pdf''],
      Inr (customer_info_of [(''uploadedFile'', PDict [(''filename'', PStr ''plan.pdf'')])],
           PNone, PStr ''plan.pdf'')) \<and>
   process_form example_env [(''uploadedFile'', PDict [(''data'', PBytes [1, 2])])] =
     ([Log_warning ''Invalid or unsupported file: None''],
      Inr (customer_info_of [(''uploadedFile'', PDict [(''data'', PBytes [1, 2])])],
           PNone, PNone)) \<and>
   process_form example_env [(''uploadedFile'', PNone)] =
     ([Log_info ''No file uploaded''],
      Inr (customer_info_of [(''uploadedFile'', PNone)], PNone, PNone)) \<and>
   process_form example_env [(''name'', PStr ''Ann'')] =
     ([], Inr (customer_info_of [(''name'', PStr ''Ann'')], PNone, PNone))"
  using process_form_file_entry
      [where env = example_env and d = "[(''filename'', PStr ''plan.pdf'')]"
         and form = "[(''uploadedFile'', PDict [(''filename'', PStr ''plan.pdf'')])]"]
    process_form_file_entry
      [where env = example_env and d = "[(''data'', PBytes [1, 2])]"
         and form = "[(''uploadedFile'', PDict [(''data'', PBytes [1, 2])])]"]
    process_form_file_entry
      [where env = example_env and v = PNone and form = "[(''uploadedFile'', PNone)]"]
    process_form_file_entry
      [where env = example_env and form = "[(''name'', PStr ''Ann'')]"]
  by (simp add: dict_get_def example_env_def example_str_def)

text \<open>The claim as the specification words it fails on a file entry that has a
  filename and no payload: the name component of the result is the filename, not
  absent.\<close>

theorem process_form_malformed_file_counterexample:
  "map_of [(''name'', PStr ''Ann''), (''uploadedFile'', PDict [(''filename'', PStr ''plan.pdf'')])]
      ''uploadedFile'' = Some (PDict [(''filename'', PStr ''plan.pdf'')]) \<and>
   map_of [(''filename'', PStr ''plan.pdf'')] ''data'' = None \<and>
   snd (process_form example_env
          [(''name'', PStr ''Ann''), (''uploadedFile'', PDict [(''filename'', PStr ''plan.pdf'')])])
     = Inr (customer_info_of
              [(''name'', PStr ''Ann''),
               (''uploadedFile'', PDict [(''filename'', PStr ''plan.pdf'')])],
            PNone, PStr ''plan.pdf'') \<and>
   PStr ''plan.pdf'' \<noteq> PNone"
  by (simp add: process_form_def dict_get_def)

section \<open>The watch loop: one record\<close>

text \<open>
  C10. The loop reads \<open>form["name"]\<close> and \<open>form["_id"]\<close> before anything else: a record
  without \<open>name\<close> raises \<open>KeyError\<close> and leaves the state as it was (no mark, no
  dedup entry, no log line, no transformer, no send), and so does a record without
  \<open>_id\<close>. \<open>process_form\<close> on the same record raises no \<open>KeyError\<close>: when it returns,
  \<open>name\<close> holds the placeholder.
\<close>

theorem loop_requires_name_and_id:
  "(map_of form ''name'' = None \<longrightarrow>
      loop_body env st form = (st, Some (KeyError ''name'')) \<and>
      (case snd (process_form env form) of
         Inr (customer_info, file_attachment, file_name) \<Rightarrow>
           map_of customer_info ''name'' = Some (PStr ''N/A'')
       | Inl e \<Rightarrow> e = AttributeError)) \<and>
   (map_of form ''name'' = Some v \<and> map_of form ''_id'' = None \<longrightarrow>
      loop_body env st form = (st, Some (KeyError ''_id'')))"
  using process_form_never_KeyError [of env form] process_form_name_placeholder [of form env]
  by (auto simp add: loop_body_def subscript_def split: sum.splits)

theorem loop_requires_name_and_id_witness:
  "map_of [(''_id'', PInt 1), (''email'', PStr ''ann@example.com'')] ''name'' = None \<and>
   loop_body example_env \<lparr>seen_ids = {}, last_checked_id = PNone, trace = []\<rparr>
      [(''_id'', PInt 1), (''email'', PStr ''ann@example.com'')]
     = (\<lparr>seen_ids = {}, last_checked_id = PNone, trace = []\<rparr>, Some (KeyError ''name'')) \<and>
   (\<exists>info. snd (process_form example_env [(''_id'', PInt 1), (''email'', PStr ''ann@example.com'')])
            = Inr (info, PNone, PNone) \<and> map_of info ''name'' = Some (PStr ''N/A'')) \<and>
   map_of [(''name'', PStr ''Ann'')] ''_id'' = None \<and>
   loop_body example_env \<lparr>seen_ids = {}, last_checked_id = PNone, trace = []\<rparr>
      [(''name'', PStr ''Ann'')]
     = (\<lparr>seen_ids = {}, last_checked_id = PNone, trace = []\<rparr>, Some (KeyError ''_id''))"
  using loop_requires_name_and_id
      [where env = example_env
         and st = "\<lparr>seen_ids = {}, last_checked_id = PNone, trace = []\<rparr>"
         and form = "[(''_id'', PInt 1), (''email'', PStr ''ann@example.com'')]"]
    loop_requires_name_and_id
      [where env = example_env
         and st = "\<lparr>seen_ids = {}, last_checked_id = PNone, trace = []\<rparr>"
         and form = "[(''name'', PStr ''Ann'')]" and v = "PStr ''Ann''"]
  by (simp add: process_form_def customer_info_of_def customer_data_keys_def dict_get_def)

subsection \<open>The dedup set\<close>

lemma send_email_except_trace:
  "send_email_except tr e =
     (tr @ [Log_exception
              (if e = SMTPException then ''SMTP error occurred'' else ''Error sending email'') e],
      Some e)"
  by (simp add: send_email_except_def handle_exception_def)

lemma attach_file_trace:
  "\<exists>evs. fst (attach_file env tr msg fd fn) = tr @ evs \<and>
     (snd (attach_file env tr msg fd fn) = Return \<longrightarrow> evs \<noteq> [])"
  by (auto simp add: attach_file_def split: sum.splits option.splits prod.splits)

lemma send_email_extends_trace:
  "length tr < length (fst (send_email env tr text_data file_data file_name))"
proof -
  let ?msg = "new_message env text_data"
  obtain evs where evs: "fst (attach_file env tr ?msg file_data file_name) = tr @ evs"
    "snd (attach_file env tr ?msg file_data file_name) = Return \<longrightarrow> evs \<noteq> []"
    using attach_file_trace by blast
  obtain tr1 r where r: "attach_file env tr ?msg file_data file_name = (tr1, r)"
    by (cases "attach_file env tr ?msg file_data file_name")
  with evs have tr1: "tr1 = tr @ evs" and ret: "r = Return \<longrightarrow> evs \<noteq> []" by simp_all
  show ?thesis
    using r tr1 ret
    by (cases r)
       (auto simp add: send_email_def deliver_def send_email_except_trace split: option.splits)
qed

lemma loop_body_seen_mono: "seen_ids st \<subseteq> seen_ids (fst (loop_body env st form))"
  by (auto simp add: loop_body_def Let_def split: sum.splits prod.splits)

lemma for_forms_seen_mono: "seen_ids st \<subseteq> seen_ids (fst (for_forms env st forms))"
proof (induction forms arbitrary: st)
  case Nil
  then show ?case by simp
next
  case (Cons form forms)
  obtain st' r where step: "loop_body env st form = (st', r)"
    by (cases "loop_body env st form")
  then have "seen_ids st \<subseteq> seen_ids st'"
    using loop_body_seen_mono [of st env form] by simp
  moreover have "seen_ids st' \<subseteq> seen_ids (fst (for_forms env st' forms))"
    by (rule Cons.IH)
  ultimately show ?case
    using step by (cases r) auto
qed

lemma poll_try_seen_mono: "seen_ids st \<subseteq> seen_ids (fst (poll_try env st))"
proof -
  obtain q forms cerr where
    f: "fetch_new_forms env (trace st) (last_checked_id st) = (q, forms, cerr)"
    by (cases "fetch_new_forms env (trace st) (last_checked_id st)")
  let ?st0 = "st\<lparr>trace := trace st @ [Db_find q]\<rparr>"
  obtain st1 r where l: "for_forms env ?st0 forms = (st1, r)"
    by (cases "for_forms env ?st0 forms")
  have "seen_ids ?st0 \<subseteq> seen_ids st1"
    using for_forms_seen_mono [of ?st0 env forms] l by simp
  then show ?thesis
    using f l by (auto simp add: poll_try_def py_sleep_def split: option.splits)
qed

lemma poll_cycle_seen_mono: "seen_ids st \<subseteq> seen_ids (fst (poll_cycle env st))"
proof -
  obtain st1 r where t: "poll_try env st = (st1, r)"
    by (cases "poll_try env st")
  then have "seen_ids st \<subseteq> seen_ids st1"
    using poll_try_seen_mono [of st env] by simp
  then show ?thesis
    using t by (cases r) (auto simp add: poll_cycle_def handle_exception_def)
qed

lemma while_true_seen_mono: "seen_ids st \<subseteq> seen_ids (fst (while_true env passes st))"
proof (induction passes arbitrary: st)
  case 0
  then show ?case by simp
next
  case (Suc n)
  obtain st' r where c: "poll_cycle env st = (st', r)"
    by (cases "poll_cycle env st")
  then have "seen_ids st \<subseteq> seen_ids st'"
    using poll_cycle_seen_mono [of st env] by simp
  moreover have "seen_ids st' \<subseteq> seen_ids (fst (while_true env n st'))"
    by (rule Suc.IH)
  ultimately show ?case
    using c by (cases r) auto
qed

text \<open>
  C6. A record whose stringified identifier is in \<open>seen_ids\<close> is skipped: the body
  only moves the mark, and the trace is the same, so neither \<open>process_form\<close> nor
  \<open>send_email\<close> ran (a call of \<open>send_email\<close> always adds to the trace). Every record
  that is not skipped has its identifier in the set afterwards, whatever became of its
  send, and the set never loses an element while the loop runs: a record handed to the
  notifier once is skipped for the rest of the run.
\<close>

theorem seen_record_is_skipped:
  "(map_of form ''name'' = Some name \<and> map_of form ''_id'' = Some oid \<and>
      py_str env oid \<in> seen_ids st
    \<longrightarrow> loop_body env st form = (st\<lparr>last_checked_id := oid\<rparr>, None)) \<and>
   (map_of form ''name'' = Some name \<and> map_of form ''_id'' = Some oid
    \<longrightarrow> py_str env oid \<in> seen_ids (fst (loop_body env st form))) \<and>
   seen_ids st \<subseteq> seen_ids (fst (while_true env passes st)) \<and>
   length tr < length (fst (send_email env tr text_data file_data file_name))"
proof -
  have skip: "map_of form ''name'' = Some name \<and> map_of form ''_id'' = Some oid \<and>
      py_str env oid \<in> seen_ids st
    \<longrightarrow> loop_body env st form = (st\<lparr>last_checked_id := oid\<rparr>, None)"
    by (simp add: loop_body_def subscript_def Let_def)
  have add: "map_of form ''name'' = Some name \<and> map_of form ''_id'' = Some oid
    \<longrightarrow> py_str env oid \<in> seen_ids (fst (loop_body env st form))"
    by (auto simp add: loop_body_def subscript_def Let_def split: sum.splits prod.splits)
  show ?thesis
    using skip add while_true_seen_mono send_email_extends_trace by blast
qed

theorem seen_record_is_skipped_witness:
  "map_of [(''_id'', PInt 1), (''name'', PStr ''Ann'')] ''name'' = Some (PStr ''Ann'') \<and>
   map_of [(''_id'', PInt 1), (''name'', PStr ''Ann'')] ''_id'' = Some (PInt 1) \<and>
   py_str example_env (PInt 1) \<in> {''1''} \<and>
   loop_body example_env \<lparr>seen_ids = {''1''}, last_checked_id = PNone, trace = []\<rparr>
      [(''_id'', PInt 1), (''name'', PStr ''Ann'')]
     = (\<lparr>seen_ids = {''1''}, last_checked_id = PInt 1, trace = []\<rparr>, None) \<and>
   ''1'' \<in> seen_ids (fst (loop_body example_env
                             \<lparr>seen_ids = {}, last_checked_id = PNone, trace = []\<rparr>
                             [(''_id'', PInt 1), (''name'', PStr ''Ann'')]))"
  using seen_record_is_skipped
      [where env = example_env
         and st = "\<lparr>seen_ids = {''1''}, last_checked_id = PNone, trace = []\<rparr>"
         and form = "[(''_id'', PInt 1), (''name'', PStr ''Ann'')]"
         and name = "PStr ''Ann''" and oid = "PInt 1"]
    seen_record_is_skipped
      [where env = example_env
         and st = "\<lparr>seen_ids = {}, last_checked_id = PNone, trace = []\<rparr>"
         and form = "[(''_id'', PInt 1), (''name'', PStr ''Ann'')]"
         and name = "PStr ''Ann''" and oid = "PInt 1"]
  by (simp add: example_env_def example_str_def)


section \<open>The notifier\<close>

lemma split_once_None: "split_once c s = None \<longleftrightarrow> c \<notin> set s"
  by (induction s) (auto split: option.splits)

lemma split_once_Some: "c \<in> set s \<Longrightarrow> \<exists>a b. split_once c s = Some (a, b)"
  using split_once_None [of c s] by (cases "split_once c s") auto

lemma allowed_has_slash: "m \<in> set ALLOWED_MIME_TYPES \<Longrightarrow> m \<noteq> [] \<and> CHR ''/'' \<in> set m"
  by (auto simp add: ALLOWED_MIME_TYPES_def)

lemma attach_file_oversize:
  "b \<noteq> [] \<Longrightarrow> truthy file_name \<Longrightarrow> MAX_FILE_SIZE < length b \<Longrightarrow>
   attach_file env tr msg (PBytes b) file_name =
     (tr @ [Log_warning (''File '' @ py_str env file_name
              @ '' exceeds the size limit. Email not sent'')], Next msg)"
  by (simp add: attach_file_def)

lemma attach_file_untyped:
  "b \<noteq> [] \<Longrightarrow> truthy file_name \<Longrightarrow> length b \<le> MAX_FILE_SIZE \<Longrightarrow>
   guess_type env file_name = Inr None \<Longrightarrow>
   attach_file env tr msg (PBytes b) file_name =
     (tr @ [Log_warning ''Unsupported file type: None''], Return)"
  by (simp add: attach_file_def)

lemma attach_file_unsupported:
  "b \<noteq> [] \<Longrightarrow> truthy file_name \<Longrightarrow> length b \<le> MAX_FILE_SIZE \<Longrightarrow>
   guess_type env file_name = Inr (Some m) \<Longrightarrow> m \<notin> set ALLOWED_MIME_TYPES \<Longrightarrow>
   CHR ''/'' \<in> set m \<Longrightarrow>
   attach_file env tr msg (PBytes b) file_name =
     (tr @ [Log_warning (''Unsupported file type: '' @ m)], Return)"
  using split_once_Some [of "CHR ''/''" m]
  by (auto simp add: attach_file_def)

lemma attach_file_unsupported_no_next:
  "b \<noteq> [] \<Longrightarrow> truthy file_name \<Longrightarrow> length b \<le> MAX_FILE_SIZE \<Longrightarrow>
   guess_type env file_name = Inr mime_type \<Longrightarrow>
   (case mime_type of None \<Rightarrow> True | Some m \<Rightarrow> m \<notin> set ALLOWED_MIME_TYPES) \<Longrightarrow>
   (\<exists>w. attach_file env tr msg (PBytes b) file_name = (tr @ [Log_warning w], Return)) \<or>
   attach_file env tr msg (PBytes b) file_name = (tr, Raise ValueError)"
  by (auto simp add: attach_file_def split: option.splits)

lemma attach_file_allowed:
  "b \<noteq> [] \<Longrightarrow> truthy file_name \<Longrightarrow> length b \<le> MAX_FILE_SIZE \<Longrightarrow>
   guess_type env file_name = Inr (Some m) \<Longrightarrow> m \<in> set ALLOWED_MIME_TYPES \<Longrightarrow>
   encode_base64 env (PBytes b) = Inr enc \<Longrightarrow>
   \<exists>main sub. split_once (CHR ''/'') m = Some (main, sub) \<and>
     attach_file env tr msg (PBytes b) file_name =
       (tr, Next (msg\<lparr>msg_attachments := msg_attachments msg @
                  [\<lparr>main_type = main, sub_type = sub, payload = enc,
                    content_disposition =
                      ''attachment; filename='' @ [CHR 0x22] @ py_str env file_name
                      @ [CHR 0x22]\<rparr>]\<rparr>))"
  using split_once_Some [of "CHR ''/''" m] allowed_has_slash [of m]
  by (auto simp add: attach_file_def)

lemma deliver_sessions:
  "filter is_smtp_session (fst (deliver env tr msg)) = filter is_smtp_session tr @ [Smtp_session msg]"
  by (simp add: deliver_def send_email_except_trace split: option.splits)

text \<open>
  C4. A call with a non-empty payload and a true filename. When the payload is longer
  than \<open>MAX_FILE_SIZE\<close>, a warning is logged and the message without attachment goes to
  the mail session (\<open>deliver\<close>), whose outcome is the call's. When the payload fits and
  the type guessed from the filename is not in \<open>ALLOWED_MIME_TYPES\<close>, the trace gets no
  mail session at all; the call logs a warning and returns whenever the guessed type is
  \<open>None\<close> or has the form \<open>type/subtype\<close>, as \<open>mimetypes\<close> documents.
\<close>

theorem send_email_attachment_policy:
  "b \<noteq> [] \<and> truthy file_name \<longrightarrow>
     (MAX_FILE_SIZE < length b \<longrightarrow>
        send_email env tr text_data (PBytes b) file_name =
          deliver env
            (tr @ [Log_warning (''File '' @ py_str env file_name
                     @ '' exceeds the size limit. Email not sent'')])
            (new_message env text_data) \<and>
        msg_attachments (new_message env text_data) = [] \<and>
        filter is_smtp_session (fst (send_email env tr text_data (PBytes b) file_name)) =
          filter is_smtp_session tr @ [Smtp_session (new_message env text_data)]) \<and>
     (length b \<le> MAX_FILE_SIZE \<and> guess_type env file_name = Inr mime_type \<and>
      (case mime_type of None \<Rightarrow> True | Some m \<Rightarrow> m \<notin> set ALLOWED_MIME_TYPES) \<longrightarrow>
        filter is_smtp_session (fst (send_email env tr text_data (PBytes b) file_name)) =
          filter is_smtp_session tr \<and>
        ((case mime_type of None \<Rightarrow> True | Some m \<Rightarrow> CHR ''/'' \<in> set m) \<longrightarrow>
           send_email env tr text_data (PBytes b) file_name =
             (tr @ [Log_warning (''Unsupported file type: ''
                      @ (case mime_type of None \<Rightarrow> ''None'' | Some m \<Rightarrow> m))], None)))"
proof (intro impI conjI; (elim conjE)?)
  assume nz: "b \<noteq> []" and fn: "truthy file_name" and big: "MAX_FILE_SIZE < length b"
  show over: "send_email env tr text_data (PBytes b) file_name =
      deliver env
        (tr @ [Log_warning (''File '' @ py_str env file_name
                 @ '' exceeds the size limit. Email not sent'')])
        (new_message env text_data)"
    by (simp add: send_email_def attach_file_oversize [OF nz fn big])
  show "msg_attachments (new_message env text_data) = []"
    by (simp add: new_message_def)
  show "filter is_smtp_session (fst (send_email env tr text_data (PBytes b) file_name)) =
      filter is_smtp_session tr @ [Smtp_session (new_message env text_data)]"
    by (simp add: over deliver_sessions)
next
  assume nz: "b \<noteq> []" and fn: "truthy file_name" and fits: "length b \<le> MAX_FILE_SIZE"
    and g: "guess_type env file_name = Inr mime_type"
    and out: "case mime_type of None \<Rightarrow> True | Some m \<Rightarrow> m \<notin> set ALLOWED_MIME_TYPES"
  show "filter is_smtp_session (fst (send_email env tr text_data (PBytes b) file_name)) =
      filter is_smtp_session tr"
    using attach_file_unsupported_no_next [OF nz fn fits g out, of tr "new_message env text_data"]
    by (auto simp add: send_email_def send_email_except_trace)
next
  assume nz: "b \<noteq> []" and fn: "truthy file_name" and fits: "length b \<le> MAX_FILE_SIZE"
    and g: "guess_type env file_name = Inr mime_type"
    and out: "case mime_type of None \<Rightarrow> True | Some m \<Rightarrow> m \<notin> set ALLOWED_MIME_TYPES"
    and wf: "case mime_type of None \<Rightarrow> True | Some m \<Rightarrow> CHR ''/'' \<in> set m"
  show "send_email env tr text_data (PBytes b) file_name =
      (tr @ [Log_warning (''Unsupported file type: ''
               @ (case mime_type of None \<Rightarrow> ''None'' | Some m \<Rightarrow> m))], None)"
  proof (cases mime_type)
    case None
    then show ?thesis
      using attach_file_untyped [OF nz fn fits, of env tr "new_message env text_data"] g
      by (simp add: send_email_def)
  next
    case (Some m)
    then show ?thesis
      using attach_file_unsupported [OF nz fn fits, of env m tr "new_message env text_data"] g out wf
      by (simp add: send_email_def)
  qed
qed

theorem send_email_attachment_policy_witness:
  "replicate (Suc MAX_FILE_SIZE) (0::8 word) \<noteq> [] \<and> truthy (PStr ''site-plan.pdf'') \<and>
   MAX_FILE_SIZE < length (replicate (Suc MAX_FILE_SIZE) (0::8 word)) \<and>
   send_email example_env [] [(''name'', PStr ''Ann'')]
       (PBytes (replicate (Suc MAX_FILE_SIZE) 0)) (PStr ''site-plan.pdf'') =
     ([Log_warning ''File site-plan.pdf exceeds the size limit. Email not sent'',
       Smtp_session (new_message example_env [(''name'', PStr ''Ann'')]),
       Log_info ''Email sent to''], None) \<and>
   msg_attachments (new_message example_env [(''name'', PStr ''Ann'')]) = [] \<and>
   [1, 2, 3 :: 8 word] \<noteq> [] \<and> truthy (PStr ''malware.exe'') \<and>
   length [1, 2, 3 :: 8 word] \<le> MAX_FILE_SIZE \<and>
   guess_type example_env (PStr ''malware.exe'') = Inr (Some ''application/octet-stream'') \<and>
   ''application/octet-stream'' \<notin> set ALLOWED_MIME_TYPES \<and>
   CHR ''/'' \<in> set ''application/octet-stream'' \<and>
   send_email example_env [] [(''name'', PStr ''Ann'')] (PBytes [1, 2, 3]) (PStr ''malware.exe'') =
     ([Log_warning ''Unsupported file type: application/octet-stream''], None)"
proof -
  have g: "guess_type example_env (PStr ''malware.exe'') = Inr (Some ''application/octet-stream'')"
    by (simp add: example_env_def example_guess_type_def ends_with_def)
  have small: "length [1, 2, 3 :: 8 word] \<le> MAX_FILE_SIZE"
    by (simp add: MAX_FILE_SIZE_def)
  have out: "''application/octet-stream'' \<notin> set ALLOWED_MIME_TYPES"
    by (simp add: ALLOWED_MIME_TYPES_def)
  have s: "py_str example_env (PStr ''site-plan.pdf'') = ''site-plan.pdf''"
    by (simp add: example_env_def example_str_def)
  have d: "\<And>tr msg. deliver example_env tr msg = (tr @ [Smtp_session msg, Log_info ''Email sent to''], None)"
    by (simp add: deliver_def example_env_def)
  show ?thesis
    using send_email_attachment_policy
        [where env = example_env and tr = "[]" and text_data = "[(''name'', PStr ''Ann'')]"
           and b = "replicate (Suc MAX_FILE_SIZE) 0" and file_name = "PStr ''site-plan.pdf''"]
      send_email_attachment_policy
        [where env = example_env and tr = "[]" and text_data = "[(''name'', PStr ''Ann'')]"
           and b = "[1, 2, 3]" and file_name = "PStr ''malware.exe''"
           and mime_type = "Some ''application/octet-stream''"]
      g small out
    by (simp add: s d)
qed

text \<open>
  C9. The size test is \<open>len(file_data) > MAX_FILE_SIZE\<close> with
  \<open>MAX_FILE_SIZE = 5 * 1024 * 1024\<close>. A payload of exactly that length passes it: with a
  filename whose guessed type is in the allow-list the message that goes to the mail
  session carries the one attachment, and no size warning is logged. A payload one byte
  longer is dropped with the size warning, and the message without attachment goes to
  the mail session.
\<close>

theorem size_check_boundary:
  "MAX_FILE_SIZE = 5 * 1024 * 1024 \<and>
   (truthy file_name \<longrightarrow>
     (length b = MAX_FILE_SIZE \<and> guess_type env file_name = Inr (Some m) \<and>
      m \<in> set ALLOWED_MIME_TYPES \<and> encode_base64 env (PBytes b) = Inr enc \<longrightarrow>
        (\<exists>main sub. split_once (CHR ''/'') m = Some (main, sub) \<and>
           send_email env tr text_data (PBytes b) file_name =
             deliver env tr
               ((new_message env text_data)\<lparr>msg_attachments :=
                  [\<lparr>main_type = main, sub_type = sub, payload = enc,
                    content_disposition =
                      ''attachment; filename='' @ [CHR 0x22] @ py_str env file_name
                      @ [CHR 0x22]\<rparr>]\<rparr>))) \<and>
     (length b = MAX_FILE_SIZE + 1 \<longrightarrow>
        send_email env tr text_data (PBytes b) file_name =
          deliver env
            (tr @ [Log_warning (''File '' @ py_str env file_name
                     @ '' exceeds the size limit. Email not sent'')])
            (new_message env text_data) \<and>
        msg_attachments (new_message env text_data) = []))"
proof (intro impI conjI; (elim conjE)?)
  show "MAX_FILE_SIZE = 5 * 1024 * 1024"
    by (simp add: MAX_FILE_SIZE_def)
next
  assume fn: "truthy file_name" and len: "length b = MAX_FILE_SIZE"
    and g: "guess_type env file_name = Inr (Some m)" and ok: "m \<in> set ALLOWED_MIME_TYPES"
    and enc: "encode_base64 env (PBytes b) = Inr enc"
  have nz: "b \<noteq> []"
    using len by (auto simp add: MAX_FILE_SIZE_def)
  have fits: "length b \<le> MAX_FILE_SIZE"
    using len by simp
  obtain main sub where sp: "split_once (CHR ''/'') m = Some (main, sub)"
    and at: "attach_file env tr (new_message env text_data) (PBytes b) file_name =
       (tr, Next ((new_message env text_data)\<lparr>msg_attachments :=
                  msg_attachments (new_message env text_data) @
                  [\<lparr>main_type = main, sub_type = sub, payload = enc,
                    content_disposition =
                      ''attachment; filename='' @ [CHR 0x22] @ py_str env file_name
                      @ [CHR 0x22]\<rparr>]\<rparr>))"
    using attach_file_allowed [OF nz fn fits g ok enc, of tr "new_message env text_data"]
    by blast
  have "msg_attachments (new_message env text_data) = []"
    by (simp add: new_message_def)
  with sp at show "\<exists>main sub. split_once (CHR ''/'') m = Some (main, sub) \<and>
       send_email env tr text_data (PBytes b) file_name =
         deliver env tr
           ((new_message env text_data)\<lparr>msg_attachments :=
              [\<lparr>main_type = main, sub_type = sub, payload = enc,
                content_disposition =
                  ''attachment; filename='' @ [CHR 0x22] @ py_str env file_name
                  @ [CHR 0x22]\<rparr>]\<rparr>)"
    by (simp add: send_email_def)
next
  assume fn: "truthy file_name" and len: "length b = MAX_FILE_SIZE + 1"
  have nz: "b \<noteq> []"
    using len by auto
  have big: "MAX_FILE_SIZE < length b"
    using len by simp
  show "send_email env tr text_data (PBytes b) file_name =
      deliver env
        (tr @ [Log_warning (''File '' @ py_str env file_name
                 @ '' exceeds the size limit. Email not sent'')])
        (new_message env text_data)"
    by (simp add: send_email_def attach_file_oversize [OF nz fn big])
next
  show "msg_attachments (new_message env text_data) = []"
    by (simp add: new_message_def)
qed

theorem size_check_boundary_witness:
  "truthy (PStr ''site-plan.pdf'') \<and>
   length (replicate MAX_FILE_SIZE (0::8 word)) = MAX_FILE_SIZE \<and>
   guess_type example_env (PStr ''site-plan.pdf'') = Inr (Some ''application/pdf'') \<and>
   ''application/pdf'' \<in> set ALLOWED_MIME_TYPES \<and>
   encode_base64 example_env (PBytes (replicate MAX_FILE_SIZE 0)) = Inr ''<base64>'' \<and>
   send_email example_env [] [(''name'', PStr ''Ann'')]
       (PBytes (replicate MAX_FILE_SIZE 0)) (PStr ''site-plan.pdf'') =
     ([Smtp_session
         ((new_message example_env [(''name'', PStr ''Ann'')])\<lparr>msg_attachments :=
            [\<lparr>main_type = ''application'', sub_type = ''pdf'', payload = ''<base64>'',
              content_disposition =
                ''attachment; filename='' @ [CHR 0x22] @ ''site-plan.pdf'' @ [CHR 0x22]\<rparr>]\<rparr>),
       Log_info ''Email sent to''], None) \<and>
   length (replicate (MAX_FILE_SIZE + 1) (0::8 word)) = MAX_FILE_SIZE + 1 \<and>
   send_email example_env [] [(''name'', PStr ''Ann'')]
       (PBytes (replicate (MAX_FILE_SIZE + 1) 0)) (PStr ''site-plan.pdf'') =
     ([Log_warning ''File site-plan.pdf exceeds the size limit. Email not sent'',
       Smtp_session (new_message example_env [(''name'', PStr ''Ann'')]),
       Log_info ''Email sent to''], None)"
proof -
  have g: "guess_type example_env (PStr ''site-plan.pdf'') = Inr (Some ''application/pdf'')"
    by (simp add: example_env_def example_guess_type_def ends_with_def)
  have ok: "''application/pdf'' \<in> set ALLOWED_MIME_TYPES"
    by (simp add: ALLOWED_MIME_TYPES_def)
  have e: "\<And>b. encode_base64 example_env (PBytes b) = Inr ''<base64>''"
    by (simp add: example_env_def example_encode_def)
  have s: "py_str example_env (PStr ''site-plan.pdf'') = ''site-plan.pdf''"
    by (simp add: example_env_def example_str_def)
  have d: "\<And>tr msg. deliver example_env tr msg = (tr @ [Smtp_session msg, Log_info ''Email sent to''], None)"
    by (simp add: deliver_def example_env_def)
  have l1: "length (replicate MAX_FILE_SIZE (0::8 word)) = MAX_FILE_SIZE"
    by (rule length_replicate)
  have l2: "length (replicate (MAX_FILE_SIZE + 1) (0::8 word)) = MAX_FILE_SIZE + 1"
    by (rule length_replicate)
  show ?thesis
    using size_check_boundary
        [where env = example_env and tr = "[]" and text_data = "[(''name'', PStr ''Ann'')]"
           and b = "replicate MAX_FILE_SIZE 0" and file_name = "PStr ''site-plan.pdf''"
           and m = "''application/pdf''" and enc = "''<base64>''"]
      size_check_boundary
        [where env = example_env and tr = "[]" and text_data = "[(''name'', PStr ''Ann'')]"
           and b = "replicate (MAX_FILE_SIZE + 1) 0" and file_name = "PStr ''site-plan.pdf''"]
      g ok e l1 l2
    by (simp add: s d)
qed


section \<open>The watch loop: a poll cycle and the run\<close>

lemma example_str_ids:
  "example_str (PInt 1) = ''1''" "example_str (PInt 2) = ''2''" "example_str (PInt 3) = ''3''"
  "example_str (PStr s) = s"
  by (simp_all add: example_str_def)

lemma example_no_file:
  "process_form env (example_form i who) = ([], Inr (customer_info_of (example_form i who), PNone, PNone))"
  by (simp add: process_form_def example_form_def)

lemma send_email_no_file:
  "send_email env tr text_data PNone PNone = deliver env tr (new_message env text_data)"
  by (simp add: send_email_def attach_file_def)

lemma processing_line_not_session: "is_smtp_session (processing_line form_name form_id) = False"
  by (simp add: processing_line_def)

lemma example_form_lookup:
  "subscript (example_form i who) ''name'' = Inr (PStr who)"
  "subscript (example_form i who) ''_id'' = Inr (PInt i)"
  by (simp_all add: subscript_def example_form_def)

text \<open>Whatever exception ends the \<open>try\<close> block also ends the pass: the handler
  re-raises it.\<close>

lemma poll_cycle_propagates: "snd (poll_cycle env st) = snd (poll_try env st)"
  by (cases "poll_try env st")
     (auto simp add: poll_cycle_def handle_exception_def split: option.splits)

lemma while_true_stops:
  "snd (poll_try env st) = Some e \<Longrightarrow> while_true env (Suc n) st = poll_cycle env st"
  using poll_cycle_propagates [of env st]
  by (cases "poll_cycle env st") (auto split: option.splits)

text \<open>
  C1. The specification has the handler of the loop log the error, sleep and resume.
  In the code \<open>handle_exception\<close> re-raises inside the \<open>except\<close> clause, so
  \<open>time.sleep(30)\<close> is not reached and the exception leaves \<open>while True\<close>. With a
  database that cannot be reached, the run ends in its first pass with \<open>PyMongoError\<close>:
  the trace has one query, the logged error, no sleep and no second query.
\<close>

theorem database_error_ends_the_run:
  "monitor_new_submission database_down_env 3 =
     (\<lparr>seen_ids = {}, last_checked_id = PNone,
       trace = [Log_info ''Monitoring MongoDB for new form submissions...'',
                Db_find Find_all,
                Log_exception ''Error monitoring submission:'' PyMongoError]\<rparr>,
      Some PyMongoError)"
  by (simp add: monitor_new_submission_def numeral_3_eq_3 poll_cycle_def poll_try_def
      fetch_new_forms_def database_down_env_def example_env_def handle_exception_def)

text \<open>What the unused \<open>sent_email_async\<close> would give the caller: no mail session on
  its own trace and no exception, whatever the mail server does.\<close>

lemma sent_email_async_returns:
  "filter is_smtp_session (fst (sent_email_async env tr text_data file_data file_name)) =
     filter is_smtp_session tr \<and>
   snd (sent_email_async env tr text_data file_data file_name) = None"
  by (simp add: sent_email_async_def)

text \<open>
  C2. The specification has every send run on a worker thread of its own. The loop
  calls \<open>send_email\<close> itself (\<open>sent_email_async\<close> is never called): in a pass over
  two records the mail session of the first record lies between the log lines of the
  first and the second record on the loop's own trace, and no thread is started.
\<close>

theorem sends_run_inside_the_loop:
  "poll_cycle two_forms_env \<lparr>seen_ids = {}, last_checked_id = PNone, trace = []\<rparr> =
     (\<lparr>seen_ids = {''1'', ''2''}, last_checked_id = PInt 2,
       trace = [Db_find Find_all,
                processing_line ''ann'' ''1'',
                Smtp_session (new_message two_forms_env (customer_info_of (example_form 1 ''ann''))),
                Log_info ''Email sent to'',
                processing_line ''bob'' ''2'',
                Smtp_session (new_message two_forms_env (customer_info_of (example_form 2 ''bob''))),
                Log_info ''Email sent to'',
                Sleep 30]\<rparr>,
      None)"
proof -
  have env: "py_str two_forms_env = example_str" "POLLING_INTERVAL two_forms_env = 30"
    "collection_find two_forms_env [] Find_all = ([example_form 1 ''ann'', example_form 2 ''bob''], None)"
    "\<And>tr msg. smtp_session two_forms_env tr msg = None"
    by (simp_all add: two_forms_env_def example_env_def)
  show ?thesis
    by (simp add: poll_cycle_def poll_try_def fetch_new_forms_def env loop_body_def Let_def
        example_form_lookup example_str_ids example_no_file send_email_no_file deliver_def
        py_sleep_def insert_commute)
qed

text \<open>
  C3. The specification has a poll over records 1, 2, 3 end with the mark at 3 whether
  or not sends fail. The send is a call inside the loop body and \<open>send_email\<close>
  re-raises: when the send of record 2 fails, the pass ends with \<open>SMTPException\<close> and
  the mark at 2.
\<close>

theorem mark_stops_at_failed_send:
  "map_of (last three_forms) ''_id'' = Some (PInt 3) \<and>
   last_checked_id (fst (poll_cycle second_send_fails_env
                           \<lparr>seen_ids = {}, last_checked_id = PNone, trace = []\<rparr>)) = PInt 2 \<and>
   snd (poll_cycle second_send_fails_env
          \<lparr>seen_ids = {}, last_checked_id = PNone, trace = []\<rparr>) = Some SMTPException"
proof -
  have env: "py_str second_send_fails_env = example_str"
    "collection_find second_send_fails_env [] Find_all = (three_forms, None)"
    "\<And>tr msg. smtp_session second_send_fails_env tr msg =
       (if length (filter is_smtp_session tr) = 1 then Some SMTPException else None)"
    by (simp_all add: second_send_fails_env_def example_env_def)
  show ?thesis
    by (simp add: poll_cycle_def poll_try_def fetch_new_forms_def env loop_body_def Let_def three_forms_def
        example_form_lookup example_str_ids example_no_file send_email_no_file deliver_def
        send_email_except_trace handle_exception_def processing_line_not_session)
       (simp add: example_form_def)
qed

text \<open>
  C5. The specification has record 3 processed in the same run after the send of
  record 2 failed. In the code the failure ends the \<open>for\<close> loop and then the run: the
  trace has no line and no mail session for record 3, although two passes were allowed.
  The mark stays at 2.
\<close>

theorem third_record_is_not_processed:
  "monitor_new_submission second_send_fails_env 2 =
     (\<lparr>seen_ids = {''1'', ''2''}, last_checked_id = PInt 2,
       trace = [Log_info ''Monitoring MongoDB for new form submissions...'',
                Db_find Find_all,
                processing_line ''ann'' ''1'',
                Smtp_session (new_message second_send_fails_env
                                (customer_info_of (example_form 1 ''ann''))),
                Log_info ''Email sent to'',
                processing_line ''bob'' ''2'',
                Smtp_session (new_message second_send_fails_env
                                (customer_info_of (example_form 2 ''bob''))),
                Log_exception ''SMTP error occurred'' SMTPException,
                Log_exception ''Error monitoring submission:'' SMTPException]\<rparr>,
      Some SMTPException)"
proof -
  have env: "py_str second_send_fails_env = example_str"
    "\<And>tr. collection_find second_send_fails_env tr Find_all = (three_forms, None)"
    "\<And>tr msg. smtp_session second_send_fails_env tr msg =
       (if length (filter is_smtp_session tr) = 1 then Some SMTPException else None)"
    by (simp_all add: second_send_fails_env_def example_env_def)
  show ?thesis
    by (simp add: monitor_new_submission_def numeral_2_eq_2 poll_cycle_def poll_try_def
        fetch_new_forms_def env loop_body_def Let_def three_forms_def
        example_form_lookup example_str_ids example_no_file send_email_no_file deliver_def
        send_email_except_trace handle_exception_def processing_line_not_session insert_commute)
qed

text \<open>The mark is the identifier of the record examined last: each body sets it before
  the dedup test, the transformer and the send.\<close>

lemma loop_body_mark:
  "map_of form ''name'' = Some v \<Longrightarrow> map_of form ''_id'' = Some oid \<Longrightarrow>
   last_checked_id (fst (loop_body env st form)) = oid"
  by (auto simp add: loop_body_def subscript_def Let_def split: sum.splits prod.splits)

lemma for_forms_mark:
  "forms \<noteq> [] \<Longrightarrow> for_forms env st forms = (st', None) \<Longrightarrow>
   map_of (last forms) ''_id'' = Some (last_checked_id st')"
proof (induction forms arbitrary: st)
  case Nil
  then show ?case by simp
next
  case (Cons form forms)
  obtain st1 r where step: "loop_body env st form = (st1, r)"
    by (cases "loop_body env st form")
  with Cons.prems have r: "r = None" and rest: "for_forms env st1 forms = (st', None)"
    by (auto split: option.splits)
  show ?case
  proof (cases "forms = []")
    case True
    with rest have "st' = st1" by simp
    moreover have "map_of form ''_id'' = Some (last_checked_id st1)"
      using step r
      by (auto simp add: loop_body_def subscript_def Let_def
          split: sum.splits prod.splits option.splits if_splits)
    ultimately show ?thesis using True by simp
  next
    case False
    then show ?thesis using Cons.IH [OF False rest] by simp
  qed
qed


end
